theory Spec2Isabelle
  imports Main "HOL-Library.Sublist"
begin

section \<open>The process and its surroundings\<close>

text \<open>
  \<^verbatim>\<open>locallibs/install.py\<close> builds command lines for pip and hands them to
  \<^verbatim>\<open>subprocess.check_call\<close>. Everything the module touches outside its own
  arguments is a field of the record \<open>world\<close>: the file system as far as
  \<^verbatim>\<open>os.path.exists\<close> sees it, the working directory, the password database as
  \<^verbatim>\<open>os.path.expanduser\<close> reads it (the home directory of the current user, and the
  home directory of a user by name), the dictionary objects of the interpreter (a store
  from addresses to dictionaries, so that two names for one object are visible), the
  address that \<^verbatim>\<open>os.environ\<close> names, the lines printed to both streams, and the
  commands handed to \<^verbatim>\<open>subprocess.check_call\<close> so far, each with the environment
  given to it.
  What becomes of a command is a function of the command, its environment and the file
  system: either the child cannot be started (the path is a directory or a file that
  may not be executed, for one), or it runs, exits with a status and leaves a file
  system behind. The library is that of Python 3, from version 3.8 on, on a POSIX
  system, where \<^verbatim>\<open>os.path\<close> is \<^verbatim>\<open>posixpath\<close>.
\<close>

type_synonym env = "string \<rightharpoonup> string"

type_synonym addr = nat

record call =
  argv :: "string list"
  call_env :: env

datatype error = CalledProcessError int "string list" | OSError | ValueError | TypeError

datatype child = Exited int | NotStarted

record world =
  fs_exists :: "string \<Rightarrow> bool"
  cwd :: string
  pw_dir :: "string option"
  getpwnam :: "string \<Rightarrow> string option"
  store :: "addr \<Rightarrow> env"
  os_environ :: addr
  stdout :: "string list"
  stderr :: "string list"
  calls :: "call list"
  subprocess :: "call \<Rightarrow> (string \<Rightarrow> bool) \<Rightarrow> child \<times> (string \<Rightarrow> bool)"

text \<open>
  An operation either returns, leaving a world, or raises, leaving an error and the
  world at the moment of the raise.
\<close>

type_synonym outcome = "(error \<times> world) + world"


fun final :: "outcome \<Rightarrow> world" where
  "final (Inl (e, w)) = w"
| "final (Inr w) = w"

fun raised :: "outcome \<Rightarrow> bool" where
  "raised (Inl _) = True"
| "raised (Inr _) = False"

text \<open>
  The commands handed to \<^verbatim>\<open>subprocess.check_call\<close> between a world and an outcome,
  one for each launch the module asks for.
\<close>

definition launched :: "world \<Rightarrow> outcome \<Rightarrow> call list" where
  "launched w r = drop (length (calls w)) (calls (final r))"

section \<open>The Python library functions the module calls\<close>

text \<open>
  Python's truth value of an optional list or string: \<^verbatim>\<open>None\<close> and the empty
  sequence are false.
\<close>

fun truthy :: "'a list option \<Rightarrow> bool" where
  "truthy None = False"
| "truthy (Some xs) = (xs \<noteq> [])"

fun elems :: "'a list option \<Rightarrow> 'a list" where
  "elems None = []"
| "elems (Some xs) = xs"

definition startswith :: "string \<Rightarrow> string \<Rightarrow> bool" where
  "startswith s p = (take (length p) s = p)"

definition endswith :: "string \<Rightarrow> string \<Rightarrow> bool" where
  "endswith s p = (length p \<le> length s \<and> drop (length s - length p) s = p)"

text \<open>
  \<^verbatim>\<open>posixpath.join(a, *p)\<close>: a component that starts with a slash discards what
  came before it; otherwise it is appended, after a slash unless the path so far is
  empty or already ends with one.
\<close>

fun os_path_join :: "string \<Rightarrow> string list \<Rightarrow> string" where
  "os_path_join path [] = path"
| "os_path_join path (b # p) =
     (if startswith b ''/'' then os_path_join b p
      else if path = [] \<or> endswith path ''/'' then os_path_join (path @ b) p
      else os_path_join (path @ ''/'' @ b) p)"

definition os_path_isabs :: "string \<Rightarrow> bool" where
  "os_path_isabs s = startswith s ''/''"

text \<open>\<^verbatim>\<open>str.split('/')\<close> and \<^verbatim>\<open>'/'.join(comps)\<close>.\<close>

fun split_sep :: "string \<Rightarrow> string list" where
  "split_sep [] = [[]]"
| "split_sep (c # cs) =
     (if c = CHR ''/'' then [] # split_sep cs
      else (case split_sep cs of [] \<Rightarrow> [[c]] | x # xs \<Rightarrow> (c # x) # xs))"

fun join_sep :: "string list \<Rightarrow> string" where
  "join_sep [] = []"
| "join_sep [x] = x"
| "join_sep (x # y # ys) = x @ ''/'' @ join_sep (y # ys)"

text \<open>
  \<^verbatim>\<open>posixpath.normpath\<close>: the loop over the components, with \<open>new_comps\<close> as the
  accumulator, then the path put together again behind its one or two leading
  slashes.
\<close>

definition normpath_step :: "nat \<Rightarrow> string list \<Rightarrow> string \<Rightarrow> string list" where
  "normpath_step initial_slashes new_comps component =
     (if component = [] \<or> component = ''.'' then new_comps
      else if component \<noteq> ''..'' \<or> (initial_slashes = 0 \<and> new_comps = [])
              \<or> (new_comps \<noteq> [] \<and> last new_comps = ''..'')
        then new_comps @ [component]
      else if new_comps \<noteq> [] then butlast new_comps
      else new_comps)"

definition os_path_normpath :: "string \<Rightarrow> string" where
  "os_path_normpath path =
     (if path = [] then ''.''
      else
        let initial_slashes =
              (if startswith path ''/''
               then (if startswith path ''//'' \<and> \<not> startswith path ''///''
                     then 2 else 1)
               else (0::nat));
            comps = foldl (normpath_step initial_slashes) [] (split_sep path);
            p = replicate initial_slashes CHR ''/'' @ join_sep comps
        in if p = [] then ''.'' else p)"

text \<open>
  \<^verbatim>\<open>posixpath.abspath\<close>: a relative path is joined to the working directory, and
  the result is normalised. The working directory is taken to be there for
  \<^verbatim>\<open>os.getcwd\<close> to read.
\<close>

definition os_path_abspath :: "world \<Rightarrow> string \<Rightarrow> string" where
  "os_path_abspath w path =
     (if \<not> os_path_isabs path then os_path_normpath (os_path_join (cwd w) [path])
      else os_path_normpath path)"

text \<open>
  \<^verbatim>\<open>os.path.exists\<close> is false of a path with a NUL character in it: the
  \<^verbatim>\<open>ValueError\<close> of \<^verbatim>\<open>os.stat\<close> is caught there.
\<close>

definition has_nul :: "string \<Rightarrow> bool" where
  "has_nul s = (CHR 0x00 \<in> set s)"

definition os_path_exists :: "world \<Rightarrow> string \<Rightarrow> bool" where
  "os_path_exists w path = (\<not> has_nul path \<and> fs_exists w path)"















definition print_out :: "string \<Rightarrow> world \<Rightarrow> world" where
  "print_out s w = w\<lparr>stdout := stdout w @ [s]\<rparr>"

definition print_err :: "string \<Rightarrow> world \<Rightarrow> world" where
  "print_err s w = w\<lparr>stderr := stderr w @ [s]\<rparr>"

text \<open>\<^verbatim>\<open>d[k] = v\<close> on the dictionary object at address \<open>d\<close>.\<close>

definition dict_setitem :: "addr \<Rightarrow> string \<Rightarrow> string \<Rightarrow> world \<Rightarrow> world" where
  "dict_setitem d k v w = w\<lparr>store := (store w)(d := (store w d)(k \<mapsto> v))\<rparr>"

text \<open>
  \<^verbatim>\<open>subprocess.check_call(cmd, env=e)\<close>: the child gets the dictionary at \<open>e\<close> as
  its environment, or the process environment when no \<open>env\<close> is given. The command
  is recorded as handed over. An argument with a NUL character in it is refused with
  \<open>ValueError\<close> before anything is started; a child that the system cannot start is
  an \<open>OSError\<close> (\<^verbatim>\<open>PermissionError\<close> and \<^verbatim>\<open>FileNotFoundError\<close> are of that
  class); otherwise the call blocks until the child exits, returns on status zero and
  raises \<open>CalledProcessError\<close> on any other status.
\<close>

definition check_call :: "string list \<Rightarrow> addr option \<Rightarrow> world \<Rightarrow> outcome" where
  "check_call cmd e w =
     (let c = \<lparr>argv = cmd,
                call_env = store w (case e of None \<Rightarrow> os_environ w | Some a \<Rightarrow> a)\<rparr>;
          w = w\<lparr>calls := calls w @ [c]\<rparr>
      in if list_ex has_nul cmd then Inl (ValueError, w)
         else
           case subprocess w c (fs_exists w) of
             (NotStarted, fs') \<Rightarrow> Inl (OSError, w)
           | (Exited retcode, fs') \<Rightarrow>
               let w = w\<lparr>fs_exists := fs'\<rparr>
               in if retcode = 0 then Inr w else Inl (CalledProcessError retcode cmd, w))"

section \<open>The module\<close>

definition ensure_pip :: "string \<Rightarrow> string \<Rightarrow> world \<Rightarrow> outcome" where
  "ensure_pip framework_path version w =
     (let python_path =
            os_path_join framework_path [''Versions'', version, ''bin/python'' @ version]
      in if \<not> os_path_exists w python_path
         then Inr (print_err (''No python at '' @ python_path) w)
         else
           let cmd = [python_path, ''-s'', ''-m'', ''ensurepip''];
               w1 = print_out ''Ensuring pip is installed...'' w
           in check_call cmd None w1)"

definition install :: "string \<Rightarrow> string \<Rightarrow> string \<Rightarrow> world \<Rightarrow> outcome" where
  "install pkgname framework_path version w =
     (let python_path =
            os_path_join framework_path [''Versions'', version, ''bin/python'' @ version]
      in if \<not> os_path_exists w python_path
         then Inr (print_err (''No python at '' @ python_path) w)
         else
           let cmd = [python_path, ''-s'', ''-m'', ''pip'', ''install'', pkgname];
               w1 = print_out (''Installing '' @ pkgname @ ''...'') w
           in check_call cmd None w1)"

definition upgrade_pip_install :: "string \<Rightarrow> string \<Rightarrow> world \<Rightarrow> outcome" where
  "upgrade_pip_install framework_path version w =
     (let python_path =
            os_path_join framework_path [''Versions'', version, ''bin/python'' @ version]
      in if \<not> os_path_exists w python_path
         then Inr (print_err (''No python at '' @ python_path) w)
         else
           let cmd = [python_path, ''-s'', ''-m'', ''pip'', ''install'', ''--upgrade'', ''pip''];
               w1 = print_out ''Upgrading pip installation...'' w
           in check_call cmd None w1)"

text \<open>
  The helper nested in \<open>install_requirements\<close>. A separator that is \<^verbatim>\<open>None\<close> or
  empty is false, and then option and value are two arguments.
\<close>

definition multi_value_option :: "string \<Rightarrow> string list \<Rightarrow> string option \<Rightarrow> string list" where
  "multi_value_option option values separator =
     (if truthy separator
      then concat (map (\<lambda>value. [option @ elems separator @ value]) values)
      else concat (map (\<lambda>value. [option, value]) values))"

definition install_requirements ::
  "string \<Rightarrow> string \<Rightarrow> string \<Rightarrow> string list option \<Rightarrow> string list option
     \<Rightarrow> string list option \<Rightarrow> world \<Rightarrow> outcome" where
  "install_requirements requirements_file framework_path version pip_platform
       no_binary only_binary w =
     (let python_path =
            os_path_join framework_path [''Versions'', version, ''bin/python'' @ version];
          headers_path =
            os_path_abspath w
              (os_path_join framework_path
                 [''Versions'', version, ''include/python'' @ version]);
          site_packages_path =
            os_path_join framework_path
              [''Versions'', version, ''lib/python'' @ version @ ''/site-packages'']
      in if \<not> os_path_exists w python_path
         then Inr (print_err (''No python at '' @ python_path) w)
         else
           let cmd = [python_path, ''-s'', ''-m'', ''pip'', ''install'', ''-r'',
                      requirements_file];
               cmd = (if truthy pip_platform
                      then cmd @ multi_value_option ''--platform'' (elems pip_platform) None
                               @ [''--target='' @ site_packages_path]
                      else cmd);
               cmd = (if truthy no_binary
                      then cmd @ multi_value_option ''--no-binary'' (elems no_binary)
                                   (Some ''='')
                      else if truthy only_binary
                      then cmd @ multi_value_option ''--only-binary'' (elems only_binary)
                                   (Some ''='')
                      else cmd);
               pip_env = os_environ w;
               w1 = dict_setitem pip_env ''CPPFLAGS'' (''-I'' @ headers_path) w;
               w2 = print_out (''Installing modules from '' @ requirements_file @ ''...'') w1
           in check_call cmd (Some pip_env) w2)"



section \<open>Vocabulary of the statements\<close>

text \<open>
  The three paths every operation derives from a framework root and a version, written
  as the source writes them.
\<close>

abbreviation python_at :: "string \<Rightarrow> string \<Rightarrow> string" where
  "python_at fp v \<equiv> os_path_join fp [''Versions'', v, ''bin/python'' @ v]"

abbreviation headers_at :: "string \<Rightarrow> string \<Rightarrow> string" where
  "headers_at fp v \<equiv> os_path_join fp [''Versions'', v, ''include/python'' @ v]"

abbreviation site_packages_at :: "string \<Rightarrow> string \<Rightarrow> string" where
  "site_packages_at fp v \<equiv>
     os_path_join fp [''Versions'', v, ''lib/python'' @ v @ ''/site-packages'']"

text \<open>
  The exit status of the child that a command gives in a world; there is none when the
  child cannot be started.
\<close>

definition exit_status :: "world \<Rightarrow> call \<Rightarrow> int option" where
  "exit_status w c =
     (if list_ex has_nul (argv c) then None
      else case fst (subprocess w c (fs_exists w)) of
             NotStarted \<Rightarrow> None
           | Exited retcode \<Rightarrow> Some retcode)"


text \<open>
  What the platform stage and the binary stage of \<open>install_requirements\<close> append,
  as lists of arguments.
\<close>

definition platform_flags :: "string \<Rightarrow> string \<Rightarrow> string list option \<Rightarrow> string list" where
  "platform_flags fp v pp =
     (if truthy pp
      then concat (map (\<lambda>p. [''--platform'', p]) (elems pp)) @ [''--target='' @ site_packages_at fp v]
      else [])"

definition binary_flags :: "string list option \<Rightarrow> string list option \<Rightarrow> string list" where
  "binary_flags nb ob =
     (if truthy nb then map (\<lambda>n. ''--no-binary='' @ n) (elems nb)
      else if truthy ob then map (\<lambda>n. ''--only-binary='' @ n) (elems ob)
      else [])"

text \<open>
  Concrete worlds for evaluating the operations. In the first, one interpreter is
  installed under \<^verbatim>\<open>/R\<close>, the environment is empty, and a child fails exactly when
  the last argument of its command is \<^verbatim>\<open>badpkg\<close>. The second differs in that no
  child can be started: what is at the interpreter path may not be executed. The third
  differs from the first in the home directory, which \<^verbatim>\<open>HOME\<close> gives with a percent
  sign in it.
\<close>

definition demo_world :: world where
  "demo_world = \<lparr>fs_exists = (\<lambda>p. p = ''/R/Versions/3.9/bin/python3.9''), cwd = ''/build'',
     pw_dir = Some ''/Users/admin'', getpwnam = (\<lambda>u. None),
     store = (\<lambda>a. Map.empty), os_environ = 0,
     stdout = [], stderr = [], calls = [],
     subprocess = (\<lambda>c fs. (if last (argv c) = ''badpkg'' then Exited 1 else Exited 0, fs))\<rparr>"

definition stuck_world :: world where
  "stuck_world = demo_world\<lparr>subprocess := (\<lambda>c fs. (NotStarted, fs))\<rparr>"


text \<open>
  The error contract of one operation, between the world it starts in and its outcome.
  It raises exactly when the interpreter path exists and the child of its one command
  does not exit with status zero, because it cannot be started or because it exits with
  another status. With the interpreter present it hands over one command, and an error
  it raises is \<open>CalledProcessError\<close> with the exit status and the command when the
  child ran, and another error when the child could not be started. With the
  interpreter missing it returns, hands over no command, and has printed the diagnostic
  to the error stream and nothing to the output stream.
\<close>

definition raises_iff_child_fails :: "string \<Rightarrow> world \<Rightarrow> outcome \<Rightarrow> bool" where
  "raises_iff_child_fails python_path w r =
     ((raised r = (os_path_exists w python_path
                    \<and> (case launched w r of [c] \<Rightarrow> exit_status w c \<noteq> Some 0 | _ \<Rightarrow> False)))
      \<and> (if os_path_exists w python_path
         then length (launched w r) = 1
              \<and> (case r of
                    Inl (CalledProcessError retcode cmd, w') \<Rightarrow>
                      [cmd] = map argv (launched w r)
                      \<and> [Some retcode] = map (exit_status w) (launched w r)
                  | Inl (e, w') \<Rightarrow> [None] = map (exit_status w) (launched w r)
                  | Inr w' \<Rightarrow> True)
         else \<not> raised r
              \<and> launched w r = []
              \<and> stderr (final r) = stderr w @ [''No python at '' @ python_path]
              \<and> stdout (final r) = stdout w))"

text \<open>
  What shows which interpreter path an operation resolved: the first argument of the
  one subprocess it launches when that path exists, and otherwise the path named in the
  diagnostic it adds to the error stream.
\<close>

definition resolves_to :: "string \<Rightarrow> world \<Rightarrow> outcome \<Rightarrow> bool" where
  "resolves_to python_path w r =
     (if os_path_exists w python_path
      then map (\<lambda>c. take 1 (argv c)) (launched w r) = [[python_path]]
      else stderr (final r) = stderr w @ [''No python at '' @ python_path])"

section \<open>Facts about the operations\<close>

declare os_path_join.simps [simp del]

lemma multi_value_option_pairs:
  "multi_value_option opt vs None = concat (map (\<lambda>x. [opt, x]) vs)"
  by (simp add: multi_value_option_def)

lemma multi_value_option_joined:
  "multi_value_option opt vs (Some ''='') = map ((@) (opt @ ''='')) vs"
  by (induction vs) (simp_all add: multi_value_option_def)

lemma launched_check_call:
  "calls w1 = calls w \<Longrightarrow>
   launched w (check_call cmd e w1)
     = [\<lparr>argv = cmd, call_env = store w1 (case e of None \<Rightarrow> os_environ w1 | Some a \<Rightarrow> a)\<rparr>]"
  by (simp add: launched_def check_call_def Let_def split: prod.splits child.splits)

lemma ensure_pip_present:
  "os_path_exists w (python_at fp v) \<Longrightarrow>
   ensure_pip fp v w
     = check_call [python_at fp v, ''-s'', ''-m'', ''ensurepip''] None
         (print_out ''Ensuring pip is installed...'' w)"
  by (simp add: ensure_pip_def Let_def)

lemma ensure_pip_missing:
  "\<not> os_path_exists w (python_at fp v) \<Longrightarrow>
   ensure_pip fp v w = Inr (print_err (''No python at '' @ python_at fp v) w)"
  by (simp add: ensure_pip_def Let_def)

lemma install_present:
  "os_path_exists w (python_at fp v) \<Longrightarrow>
   install pkg fp v w
     = check_call [python_at fp v, ''-s'', ''-m'', ''pip'', ''install'', pkg] None
         (print_out (''Installing '' @ pkg @ ''...'') w)"
  by (simp add: install_def Let_def)

lemma install_missing:
  "\<not> os_path_exists w (python_at fp v) \<Longrightarrow>
   install pkg fp v w = Inr (print_err (''No python at '' @ python_at fp v) w)"
  by (simp add: install_def Let_def)

lemma upgrade_pip_install_present:
  "os_path_exists w (python_at fp v) \<Longrightarrow>
   upgrade_pip_install fp v w
     = check_call [python_at fp v, ''-s'', ''-m'', ''pip'', ''install'', ''--upgrade'', ''pip'']
         None (print_out ''Upgrading pip installation...'' w)"
  by (simp add: upgrade_pip_install_def Let_def)

lemma upgrade_pip_install_missing:
  "\<not> os_path_exists w (python_at fp v) \<Longrightarrow>
   upgrade_pip_install fp v w = Inr (print_err (''No python at '' @ python_at fp v) w)"
  by (simp add: upgrade_pip_install_def Let_def)


lemma install_requirements_present:
  "os_path_exists w (python_at fp v) \<Longrightarrow>
   install_requirements rf fp v pp nb ob w
     = check_call
         ([python_at fp v, ''-s'', ''-m'', ''pip'', ''install'', ''-r'', rf]
            @ platform_flags fp v pp @ binary_flags nb ob)
         (Some (os_environ w))
         (print_out (''Installing modules from '' @ rf @ ''...'')
            (dict_setitem (os_environ w) ''CPPFLAGS''
               (''-I'' @ os_path_abspath w (headers_at fp v)) w))"
  unfolding install_requirements_def Let_def platform_flags_def binary_flags_def
    multi_value_option_pairs multi_value_option_joined
  by simp

lemma install_requirements_missing:
  "\<not> os_path_exists w (python_at fp v) \<Longrightarrow>
   install_requirements rf fp v pp nb ob w
     = Inr (print_err (''No python at '' @ python_at fp v) w)"
  by (simp add: install_requirements_def Let_def)

lemma install_requirements_argv:
  "os_path_exists w (python_at fp v) \<Longrightarrow>
   map argv (launched w (install_requirements rf fp v pp nb ob w))
     = [[python_at fp v, ''-s'', ''-m'', ''pip'', ''install'', ''-r'', rf]
          @ platform_flags fp v pp @ binary_flags nb ob]"
  by (simp add: install_requirements_present launched_check_call print_out_def
        dict_setitem_def)

lemmas path_eval = os_path_join.simps startswith_def endswith_def

lemma demo_python_exists: "os_path_exists demo_world (python_at ''/R'' ''3.9'')"
  by (simp add: path_eval os_path_exists_def has_nul_def demo_world_def)

lemma launched_returned_unchanged:
  "calls w1 = calls w \<Longrightarrow> launched w (Inr w1) = []"
  by (simp add: launched_def)

lemma normpath_keeps_root:
  assumes "os_path_isabs p"
  shows "os_path_isabs (os_path_normpath p)"
proof -
  from assms obtain cs where p: "p = CHR ''/'' # cs"
    by (cases p) (auto simp: os_path_isabs_def startswith_def)
  show ?thesis
    by (simp add: p os_path_normpath_def os_path_isabs_def startswith_def Let_def)
qed

lemma join_keeps_root:
  assumes "os_path_isabs c"
  shows "os_path_isabs (os_path_join c [p])"
proof -
  from assms obtain cs where c: "c = CHR ''/'' # cs"
    by (cases c) (auto simp: os_path_isabs_def startswith_def)
  show ?thesis
    by (simp add: c os_path_join.simps os_path_isabs_def startswith_def)
qed

lemma abspath_is_absolute:
  "os_path_isabs (cwd w) \<Longrightarrow> os_path_isabs (os_path_abspath w p)"
  by (simp add: os_path_abspath_def normpath_keeps_root join_keeps_root)

lemma launched_install_requirements:
  "launched w (install_requirements rf fp v pp nb ob w)
     = (if os_path_exists w (python_at fp v)
        then [\<lparr>argv = [python_at fp v, ''-s'', ''-m'', ''pip'', ''install'', ''-r'', rf]
                        @ platform_flags fp v pp @ binary_flags nb ob,
                call_env = (store w (os_environ w))
                  (''CPPFLAGS'' \<mapsto> ''-I'' @ os_path_abspath w (headers_at fp v))\<rparr>]
        else [])"
  by (simp add: install_requirements_present install_requirements_missing
        launched_check_call launched_returned_unchanged print_out_def print_err_def
        dict_setitem_def)

lemma startswith_slash: "startswith s ''/'' = (s \<noteq> [] \<and> hd s = CHR ''/'')"
  by (cases s) (simp_all add: startswith_def)

lemma endswith_slash: "endswith s ''/'' = (s \<noteq> [] \<and> last s = CHR ''/'')"
  by (cases s rule: rev_cases) (simp_all add: endswith_def)

lemma python_at_template:
  assumes "v \<noteq> []" and "\<not> startswith v ''/''" and "\<not> endswith v ''/''"
  shows "python_at fp v
           = (if fp = [] \<or> endswith fp ''/'' then fp else fp @ ''/'')
               @ ''Versions/'' @ v @ ''/bin/python'' @ v"
  using assms
  by (simp add: os_path_join.simps startswith_slash endswith_slash)

lemma check_call_resolves:
  "calls w1 = calls w \<Longrightarrow> stderr w1 = stderr w \<Longrightarrow> os_path_exists w p \<Longrightarrow>
   resolves_to p w (check_call (p # args) e w1)"
  by (simp add: resolves_to_def launched_check_call)

lemma missing_resolves:
  "\<not> os_path_exists w p \<Longrightarrow> resolves_to p w (Inr (print_err (''No python at '' @ p) w))"
  by (simp add: resolves_to_def print_err_def)

lemma check_call_raises_iff:
  assumes "calls w1 = calls w" and "subprocess w1 = subprocess w"
    and "fs_exists w1 = fs_exists w" and "os_path_exists w p"
  shows "raises_iff_child_fails p w (check_call cmd e w1)"
  using assms
  by (simp add: raises_iff_child_fails_def launched_def check_call_def exit_status_def
        Let_def split: prod.splits child.splits)

lemma missing_raises_iff:
  "\<not> os_path_exists w p \<Longrightarrow>
   raises_iff_child_fails p w (Inr (print_err (''No python at '' @ p) w))"
  by (simp add: raises_iff_child_fails_def launched_def print_err_def)

lemma raises_iff_single:
  "raises_iff_child_fails p w r \<Longrightarrow> os_path_exists w p \<Longrightarrow> launched w r = [c] \<Longrightarrow>
   raised r = (exit_status w c \<noteq> Some 0)"
  by (simp add: raises_iff_child_fails_def)

lemma raises_iff_missing:
  "raises_iff_child_fails p w r \<Longrightarrow> \<not> os_path_exists w p \<Longrightarrow>
   \<not> raised r \<and> launched w r = []
   \<and> stderr (final r) = stderr w @ [''No python at '' @ p] \<and> stdout (final r) = stdout w"
  by (simp add: raises_iff_child_fails_def)

lemma raises_iff_once:
  "raises_iff_child_fails p w r \<Longrightarrow> os_path_exists w p \<Longrightarrow> length (launched w r) = 1"
  by (simp add: raises_iff_child_fails_def)

lemma stuck_python_exists: "os_path_exists stuck_world (python_at ''/R'' ''3.9'')"
  by (simp add: path_eval os_path_exists_def has_nul_def stuck_world_def demo_world_def)












section \<open>The properties\<close>

text \<open>
  C7. When the platform list, the no-binary list and the only-binary list are all empty
  or absent and the interpreter exists, \<open>install_requirements\<close> launches exactly
  \<^verbatim>\<open>[<python>, -s, -m, pip, install, -r, <manifest>]\<close>, with nothing appended.
\<close>

theorem bare_manifest_install_argv:
  assumes "os_path_exists w (python_at fp v)"
    and "\<not> truthy pp" and "\<not> truthy nb" and "\<not> truthy ob"
  shows "map argv (launched w (install_requirements rf fp v pp nb ob w))
           = [[python_at fp v, ''-s'', ''-m'', ''pip'', ''install'', ''-r'', rf]]"
  using assms by (simp add: install_requirements_argv platform_flags_def binary_flags_def)

theorem bare_manifest_install_argv_witness:
  "map argv (launched demo_world
      (install_requirements ''requirements.txt'' ''/R'' ''3.9'' None (Some []) None demo_world))
     = [[''/R/Versions/3.9/bin/python3.9'', ''-s'', ''-m'', ''pip'', ''install'', ''-r'',
         ''requirements.txt'']]"
  using bare_manifest_install_argv
    [OF demo_python_exists, of None "Some []" None "''requirements.txt''"]
  by (simp add: path_eval)

text \<open>
  C8. When the interpreter exists, \<open>ensure_pip\<close> launches
  \<^verbatim>\<open>[<python>, -s, -m, ensurepip]\<close>, \<open>install\<close> launches
  \<^verbatim>\<open>[<python>, -s, -m, pip, install, <pkgname>]\<close> and \<open>upgrade_pip_install\<close>
  launches \<^verbatim>\<open>[<python>, -s, -m, pip, install, --upgrade, pip]\<close>, each as its one
  and only subprocess.
\<close>

theorem wire_contract_argv:
  assumes "os_path_exists w (python_at fp v)"
  shows "map argv (launched w (ensure_pip fp v w))
           = [[python_at fp v, ''-s'', ''-m'', ''ensurepip'']]
       \<and> map argv (launched w (install pkgname fp v w))
           = [[python_at fp v, ''-s'', ''-m'', ''pip'', ''install'', pkgname]]
       \<and> map argv (launched w (upgrade_pip_install fp v w))
           = [[python_at fp v, ''-s'', ''-m'', ''pip'', ''install'', ''--upgrade'', ''pip'']]"
  using assms
  by (simp add: ensure_pip_present install_present upgrade_pip_install_present
        launched_check_call print_out_def)

theorem wire_contract_argv_witness:
  "map argv (launched demo_world (ensure_pip ''/R'' ''3.9'' demo_world))
     = [[''/R/Versions/3.9/bin/python3.9'', ''-s'', ''-m'', ''ensurepip'']]
   \<and> map argv (launched demo_world (install ''wheel'' ''/R'' ''3.9'' demo_world))
     = [[''/R/Versions/3.9/bin/python3.9'', ''-s'', ''-m'', ''pip'', ''install'', ''wheel'']]
   \<and> map argv (launched demo_world (upgrade_pip_install ''/R'' ''3.9'' demo_world))
     = [[''/R/Versions/3.9/bin/python3.9'', ''-s'', ''-m'', ''pip'', ''install'',
         ''--upgrade'', ''pip'']]"
  using wire_contract_argv [OF demo_python_exists, of "''wheel''"]
  by (simp add: path_eval)

text \<open>
  C10. The platform list and the binary lists do not exclude each other: with the
  interpreter present, a non-empty platform list and a non-empty no-binary list, the one
  launched argument vector is the base command, then the \<^verbatim>\<open>--platform <value>\<close>
  pairs in input order, then \<^verbatim>\<open>--target=<install-dir>\<close>, then the
  \<^verbatim>\<open>--no-binary=<name>\<close> flags: every platform and target argument comes before
  every no-binary flag.
\<close>

theorem platform_and_no_binary_together:
  assumes "os_path_exists w (python_at fp v)" and "ps \<noteq> []" and "nb \<noteq> []"
  shows "map argv (launched w (install_requirements rf fp v (Some ps) (Some nb) ob w))
           = [[python_at fp v, ''-s'', ''-m'', ''pip'', ''install'', ''-r'', rf]
                @ concat (map (\<lambda>p. [''--platform'', p]) ps)
                @ [''--target='' @ site_packages_at fp v]
                @ map (\<lambda>n. ''--no-binary='' @ n) nb]"
  using assms by (simp add: install_requirements_argv platform_flags_def binary_flags_def)

theorem platform_and_no_binary_together_witness:
  "map argv (launched demo_world
      (install_requirements ''req.txt'' ''/R'' ''3.9'' (Some [''macosx_10_9_x86_64''])
         (Some [''lxml'', ''cffi'']) None demo_world))
     = [[''/R/Versions/3.9/bin/python3.9'', ''-s'', ''-m'', ''pip'', ''install'', ''-r'',
         ''req.txt'', ''--platform'', ''macosx_10_9_x86_64'',
         ''--target=/R/Versions/3.9/lib/python3.9/site-packages'',
         ''--no-binary=lxml'', ''--no-binary=cffi'']]"
  using platform_and_no_binary_together
    [OF demo_python_exists, of "[''macosx_10_9_x86_64'']" "[''lxml'', ''cffi'']" "''req.txt''" None]
  by (simp add: path_eval)

text \<open>
  C1. With the interpreter present and a non-empty no-binary list, the launched
  argument vector ends with one \<^verbatim>\<open>--no-binary=<name>\<close> per entry, whatever the
  only-binary list is: the outcome is the one obtained with no only-binary list at all,
  and unless the interpreter path, the manifest name or a platform argument itself
  begins with \<^verbatim>\<open>--only-binary=\<close>, no argument does. With a no-binary list that is
  empty or absent and a non-empty only-binary list, the vector ends with one
  \<^verbatim>\<open>--only-binary=<name>\<close> per entry.
\<close>

theorem no_binary_takes_precedence:
  assumes "os_path_exists w (python_at fp v)"
  shows "(nb \<noteq> [] \<longrightarrow>
            map argv (launched w (install_requirements rf fp v pp (Some nb) ob w))
              = [[python_at fp v, ''-s'', ''-m'', ''pip'', ''install'', ''-r'', rf]
                   @ platform_flags fp v pp @ map (\<lambda>n. ''--no-binary='' @ n) nb]
          \<and> install_requirements rf fp v pp (Some nb) ob w
              = install_requirements rf fp v pp (Some nb) None w
          \<and> ((\<forall>a \<in> set ([python_at fp v, rf] @ platform_flags fp v pp).
                  \<not> startswith a ''--only-binary='') \<longrightarrow>
              (\<forall>c \<in> set (launched w (install_requirements rf fp v pp (Some nb) ob w)).
                 \<forall>a \<in> set (argv c). \<not> startswith a ''--only-binary='')))
       \<and> (\<not> truthy nbo \<and> obl \<noteq> [] \<longrightarrow>
            map argv (launched w (install_requirements rf fp v pp nbo (Some obl) w))
              = [[python_at fp v, ''-s'', ''-m'', ''pip'', ''install'', ''-r'', rf]
                   @ platform_flags fp v pp @ map (\<lambda>n. ''--only-binary='' @ n) obl])"
proof (intro conjI impI)
  assume "nb \<noteq> []"
  then show "map argv (launched w (install_requirements rf fp v pp (Some nb) ob w))
      = [[python_at fp v, ''-s'', ''-m'', ''pip'', ''install'', ''-r'', rf]
           @ platform_flags fp v pp @ map (\<lambda>n. ''--no-binary='' @ n) nb]"
    using assms by (simp add: install_requirements_argv binary_flags_def)
next
  assume "nb \<noteq> []"
  then show "install_requirements rf fp v pp (Some nb) ob w
      = install_requirements rf fp v pp (Some nb) None w"
    using assms by (simp add: install_requirements_present binary_flags_def)
next
  assume nb: "nb \<noteq> []"
    and clean: "\<forall>a \<in> set ([python_at fp v, rf] @ platform_flags fp v pp).
                  \<not> startswith a ''--only-binary=''"
  have "launched w (install_requirements rf fp v pp (Some nb) ob w)
      = [\<lparr>argv = [python_at fp v, ''-s'', ''-m'', ''pip'', ''install'', ''-r'', rf]
                  @ platform_flags fp v pp @ map (\<lambda>n. ''--no-binary='' @ n) nb,
          call_env = (store w (os_environ w))
                       (''CPPFLAGS'' \<mapsto> ''-I'' @ os_path_abspath w (headers_at fp v))\<rparr>]"
    using assms nb
    by (simp add: install_requirements_present launched_check_call print_out_def
          dict_setitem_def binary_flags_def)
  with clean show "\<forall>c \<in> set (launched w (install_requirements rf fp v pp (Some nb) ob w)).
      \<forall>a \<in> set (argv c). \<not> startswith a ''--only-binary=''"
    by (auto simp: startswith_def)
next
  assume "\<not> truthy nbo \<and> obl \<noteq> []"
  then show "map argv (launched w (install_requirements rf fp v pp nbo (Some obl) w))
      = [[python_at fp v, ''-s'', ''-m'', ''pip'', ''install'', ''-r'', rf]
           @ platform_flags fp v pp @ map (\<lambda>n. ''--only-binary='' @ n) obl]"
    using assms by (simp add: install_requirements_argv binary_flags_def)
qed

theorem no_binary_takes_precedence_witness:
  "map argv (launched demo_world
      (install_requirements ''req.txt'' ''/R'' ''3.9'' None (Some [''a'', ''b''])
         (Some [''c'']) demo_world))
     = [[''/R/Versions/3.9/bin/python3.9'', ''-s'', ''-m'', ''pip'', ''install'', ''-r'',
         ''req.txt'', ''--no-binary=a'', ''--no-binary=b'']]
   \<and> map argv (launched demo_world
      (install_requirements ''req.txt'' ''/R'' ''3.9'' None None (Some [''c'']) demo_world))
     = [[''/R/Versions/3.9/bin/python3.9'', ''-s'', ''-m'', ''pip'', ''install'', ''-r'',
         ''req.txt'', ''--only-binary=c'']]"
proof -
  note t = no_binary_takes_precedence [OF demo_python_exists, where nb = "[''a'', ''b'']"
      and rf = "''req.txt''" and pp = None and ob = "Some [''c'']" and nbo = None
      and obl = "[''c'']"]
  have nb: "[''a'', ''b''] \<noteq> []" and ob: "\<not> truthy None \<and> [''c''] \<noteq> []"
    by simp_all
  from t [THEN conjunct1, rule_format, OF nb, THEN conjunct1]
       t [THEN conjunct2, rule_format, OF ob]
  show ?thesis by (simp add: path_eval platform_flags_def)
qed

text \<open>
  C2. With the interpreter present and a non-empty platform list, the launched argument
  vector is the base command, then \<^verbatim>\<open>--platform p1\<close> ... \<^verbatim>\<open>--platform pn\<close>
  as separate arguments in input order, then one \<^verbatim>\<open>--target=<install-dir>\<close> for the
  site-packages directory of the same root and version, then what the binary stage
  appends. With a platform list that is empty or absent the base command is followed by
  the binary stage alone, and no argument of that stage is \<^verbatim>\<open>--platform\<close> or
  begins with \<^verbatim>\<open>--target=\<close>.
\<close>

theorem platform_pairs_then_target:
  assumes "os_path_exists w (python_at fp v)"
  shows "(ps \<noteq> [] \<longrightarrow>
            map argv (launched w (install_requirements rf fp v (Some ps) nb ob w))
              = [[python_at fp v, ''-s'', ''-m'', ''pip'', ''install'', ''-r'', rf]
                   @ concat (map (\<lambda>p. [''--platform'', p]) ps)
                   @ [''--target='' @ site_packages_at fp v]
                   @ binary_flags nb ob])
       \<and> (\<not> truthy pp \<longrightarrow>
            map argv (launched w (install_requirements rf fp v pp nb ob w))
              = [[python_at fp v, ''-s'', ''-m'', ''pip'', ''install'', ''-r'', rf]
                   @ binary_flags nb ob])
       \<and> (\<forall>a \<in> set (binary_flags nb ob).
             a \<noteq> ''--platform'' \<and> \<not> startswith a ''--target='')"
proof (intro conjI impI ballI)
  assume "ps \<noteq> []"
  then show "map argv (launched w (install_requirements rf fp v (Some ps) nb ob w))
      = [[python_at fp v, ''-s'', ''-m'', ''pip'', ''install'', ''-r'', rf]
           @ concat (map (\<lambda>p. [''--platform'', p]) ps)
           @ [''--target='' @ site_packages_at fp v]
           @ binary_flags nb ob]"
    using assms by (simp add: install_requirements_argv platform_flags_def)
next
  assume "\<not> truthy pp"
  then show "map argv (launched w (install_requirements rf fp v pp nb ob w))
      = [[python_at fp v, ''-s'', ''-m'', ''pip'', ''install'', ''-r'', rf]
           @ binary_flags nb ob]"
    using assms by (simp add: install_requirements_argv platform_flags_def)
next
  fix a assume "a \<in> set (binary_flags nb ob)"
  then show "a \<noteq> ''--platform''"
    by (auto simp: binary_flags_def split: if_splits)
next
  fix a assume "a \<in> set (binary_flags nb ob)"
  then show "\<not> startswith a ''--target=''"
    by (auto simp: binary_flags_def startswith_def split: if_splits)
qed

theorem platform_pairs_then_target_witness:
  "map argv (launched demo_world
      (install_requirements ''req.txt'' ''/R'' ''3.9'' (Some [''p1'', ''p2'']) None None
         demo_world))
     = [[''/R/Versions/3.9/bin/python3.9'', ''-s'', ''-m'', ''pip'', ''install'', ''-r'',
         ''req.txt'', ''--platform'', ''p1'', ''--platform'', ''p2'',
         ''--target=/R/Versions/3.9/lib/python3.9/site-packages'']]
   \<and> map argv (launched demo_world
      (install_requirements ''req.txt'' ''/R'' ''3.9'' (Some []) None (Some [''c''])
         demo_world))
     = [[''/R/Versions/3.9/bin/python3.9'', ''-s'', ''-m'', ''pip'', ''install'', ''-r'',
         ''req.txt'', ''--only-binary=c'']]"
proof -
  note t = platform_pairs_then_target [OF demo_python_exists, where rf = "''req.txt''"]
  have ps: "[''p1'', ''p2''] \<noteq> []" and pp: "\<not> truthy (Some ([] :: string list))"
    by simp_all
  from t [where ps = "[''p1'', ''p2'']" and nb = None and ob = None,
          THEN conjunct1, rule_format, OF ps]
       t [where pp = "Some []" and nb = None and ob = "Some [''c'']",
          THEN conjunct2, THEN conjunct1, rule_format, OF pp]
  show ?thesis by (simp add: path_eval binary_flags_def)
qed

text \<open>
  C5. Every subprocess that \<open>install_requirements\<close> launches gets an environment in
  which \<^verbatim>\<open>CPPFLAGS\<close> is \<^verbatim>\<open>-I\<close> followed by the absolute form of
  \<^verbatim>\<open><root>/Versions/<version>/include/python<version>\<close>, for the root and version
  that give the interpreter path; with the interpreter present there is one such
  subprocess, and its environment is the process environment with this one entry set.
  The header path is absolute whenever the working directory is.
\<close>

theorem cppflags_in_child_environment:
  "(\<forall>c \<in> set (launched w (install_requirements rf fp v pp nb ob w)).
       call_env c ''CPPFLAGS'' = Some (''-I'' @ os_path_abspath w (headers_at fp v)))
   \<and> (os_path_exists w (python_at fp v) \<longrightarrow>
        map call_env (launched w (install_requirements rf fp v pp nb ob w))
          = [(store w (os_environ w))
               (''CPPFLAGS'' \<mapsto> ''-I'' @ os_path_abspath w (headers_at fp v))])
   \<and> (os_path_isabs (cwd w) \<longrightarrow> os_path_isabs (os_path_abspath w (headers_at fp v)))"
  by (simp add: launched_install_requirements abspath_is_absolute)

theorem cppflags_in_child_environment_witness:
  "map (\<lambda>c. call_env c ''CPPFLAGS'') (launched demo_world
      (install_requirements ''req.txt'' ''/R'' ''3.9'' None None None demo_world))
     = [Some ''-I/R/Versions/3.9/include/python3.9'']
   \<and> os_path_abspath (demo_world\<lparr>cwd := ''/build''\<rparr>) (headers_at ''Python.framework'' ''3.9'')
     = ''/build/Python.framework/Versions/3.9/include/python3.9''"
proof -
  note t = cppflags_in_child_environment [where w = demo_world and fp = "''/R''"
      and v = "''3.9''" and rf = "''req.txt''" and pp = None and nb = None and ob = None]
  have abs: "os_path_abspath demo_world (headers_at ''/R'' ''3.9'')
      = ''/R/Versions/3.9/include/python3.9''"
    by (simp add: os_path_abspath_def os_path_isabs_def os_path_normpath_def
          normpath_step_def path_eval Let_def)
  have "map (\<lambda>c. call_env c ''CPPFLAGS'') (launched demo_world
      (install_requirements ''req.txt'' ''/R'' ''3.9'' None None None demo_world))
     = map (\<lambda>e. e ''CPPFLAGS'') (map call_env (launched demo_world
      (install_requirements ''req.txt'' ''/R'' ''3.9'' None None None demo_world)))"
    by (simp add: comp_def)
  also have "\<dots> = [Some ''-I/R/Versions/3.9/include/python3.9'']"
    unfolding t [THEN conjunct2, THEN conjunct1, rule_format, OF demo_python_exists] abs
    by simp
  finally have "map (\<lambda>c. call_env c ''CPPFLAGS'') (launched demo_world
      (install_requirements ''req.txt'' ''/R'' ''3.9'' None None None demo_world))
     = [Some ''-I/R/Versions/3.9/include/python3.9'']" .
  moreover have "os_path_abspath (demo_world\<lparr>cwd := ''/build''\<rparr>)
      (headers_at ''Python.framework'' ''3.9'')
     = ''/build/Python.framework/Versions/3.9/include/python3.9''"
    by (simp add: os_path_abspath_def os_path_isabs_def os_path_normpath_def
          normpath_step_def path_eval Let_def)
  ultimately show ?thesis by simp
qed

text \<open>
  C4, as stated, fails: an operation also raises when the interpreter path exists and
  the child cannot be started. Where what is at the path may not be executed,
  \<open>ensure_pip\<close> raises although no child has exited with any status; and a package
  name with a NUL character in it is refused before anything is started.
\<close>

theorem raise_without_exit_counterexample:
  "os_path_exists stuck_world (python_at ''/R'' ''3.9'')
   \<and> raised (ensure_pip ''/R'' ''3.9'' stuck_world)
   \<and> map (exit_status stuck_world)
        (launched stuck_world (ensure_pip ''/R'' ''3.9'' stuck_world)) = [None]
   \<and> os_path_exists demo_world (python_at ''/R'' ''3.9'')
   \<and> raised (install [CHR ''a'', CHR 0x00] ''/R'' ''3.9'' demo_world)
   \<and> map (exit_status demo_world)
        (launched demo_world (install [CHR ''a'', CHR 0x00] ''/R'' ''3.9'' demo_world)) = [None]"
proof -
  have "raised (ensure_pip ''/R'' ''3.9'' stuck_world)"
    unfolding ensure_pip_present [OF stuck_python_exists]
    by (simp add: check_call_def print_out_def has_nul_def path_eval Let_def
          stuck_world_def demo_world_def)
  moreover have "map (exit_status stuck_world)
        (launched stuck_world (ensure_pip ''/R'' ''3.9'' stuck_world)) = [None]"
    unfolding ensure_pip_present [OF stuck_python_exists]
    by (simp add: launched_check_call print_out_def exit_status_def has_nul_def path_eval)
       (simp add: stuck_world_def demo_world_def)
  moreover have "raised (install [CHR ''a'', CHR 0x00] ''/R'' ''3.9'' demo_world)"
    unfolding install_present [OF demo_python_exists]
    by (simp add: check_call_def print_out_def has_nul_def Let_def)
  moreover have "map (exit_status demo_world)
        (launched demo_world (install [CHR ''a'', CHR 0x00] ''/R'' ''3.9'' demo_world)) = [None]"
    unfolding install_present [OF demo_python_exists]
    by (simp add: launched_check_call print_out_def exit_status_def has_nul_def)
  ultimately show ?thesis
    using stuck_python_exists demo_python_exists by simp
qed

text \<open>
  C4, amended. Each of \<open>ensure_pip\<close>, \<open>install\<close>, \<open>upgrade_pip_install\<close> and
  \<open>install_requirements\<close> raises if and only if the interpreter path exists and the
  child of its command cannot be started or exits with a status other than zero. With
  the path missing it prints the diagnostic to the error stream and returns without
  handing over any command; with the path present it hands over exactly one command,
  so a failure is not retried, and the error reaches the caller.
\<close>

theorem raise_iff_child_fails:
  "raises_iff_child_fails (python_at fp v) w (ensure_pip fp v w)
   \<and> raises_iff_child_fails (python_at fp v) w (install pkgname fp v w)
   \<and> raises_iff_child_fails (python_at fp v) w (upgrade_pip_install fp v w)
   \<and> raises_iff_child_fails (python_at fp v) w
       (install_requirements rf fp v pp nb ob w)"
proof (cases "os_path_exists w (python_at fp v)")
  case True
  then show ?thesis
    by (simp add: ensure_pip_present install_present upgrade_pip_install_present
          install_requirements_present check_call_raises_iff print_out_def dict_setitem_def)
next
  case False
  then show ?thesis
    by (simp only: ensure_pip_missing install_missing upgrade_pip_install_missing
          install_requirements_missing missing_raises_iff simp_thms)
qed

theorem raise_iff_child_fails_witness:
  "raised (install ''badpkg'' ''/R'' ''3.9'' demo_world)
   \<and> \<not> raised (ensure_pip ''/R'' ''3.9'' demo_world)
   \<and> raised (ensure_pip ''/R'' ''3.9'' stuck_world)
   \<and> \<not> raised (upgrade_pip_install ''/Q'' ''3.9'' demo_world)
   \<and> launched demo_world (upgrade_pip_install ''/Q'' ''3.9'' demo_world) = []
   \<and> stderr (final (upgrade_pip_install ''/Q'' ''3.9'' demo_world))
       = [''No python at /Q/Versions/3.9/bin/python3.9'']
   \<and> length (launched demo_world
        (install_requirements ''badpkg'' ''/R'' ''3.9'' None None None demo_world)) = 1"
proof -
  have q: "\<not> os_path_exists demo_world (python_at ''/Q'' ''3.9'')"
    by (simp add: path_eval os_path_exists_def demo_world_def)
  have l1: "launched demo_world (install ''badpkg'' ''/R'' ''3.9'' demo_world)
      = [\<lparr>argv = [python_at ''/R'' ''3.9'', ''-s'', ''-m'', ''pip'', ''install'', ''badpkg''],
         call_env = store demo_world (os_environ demo_world)\<rparr>]"
    unfolding install_present [OF demo_python_exists]
    by (simp add: launched_check_call print_out_def)
  have l2: "launched demo_world (ensure_pip ''/R'' ''3.9'' demo_world)
      = [\<lparr>argv = [python_at ''/R'' ''3.9'', ''-s'', ''-m'', ''ensurepip''],
         call_env = store demo_world (os_environ demo_world)\<rparr>]"
    unfolding ensure_pip_present [OF demo_python_exists]
    by (simp add: launched_check_call print_out_def)
  have l3: "launched stuck_world (ensure_pip ''/R'' ''3.9'' stuck_world)
      = [\<lparr>argv = [python_at ''/R'' ''3.9'', ''-s'', ''-m'', ''ensurepip''],
         call_env = store stuck_world (os_environ stuck_world)\<rparr>]"
    unfolding ensure_pip_present [OF stuck_python_exists]
    by (simp add: launched_check_call print_out_def)
  have e1: "exit_status demo_world
      \<lparr>argv = [python_at ''/R'' ''3.9'', ''-s'', ''-m'', ''pip'', ''install'', ''badpkg''],
       call_env = store demo_world (os_environ demo_world)\<rparr> = Some 1"
    and e2: "exit_status demo_world
      \<lparr>argv = [python_at ''/R'' ''3.9'', ''-s'', ''-m'', ''ensurepip''],
       call_env = store demo_world (os_environ demo_world)\<rparr> = Some 0"
    and e3: "exit_status stuck_world
      \<lparr>argv = [python_at ''/R'' ''3.9'', ''-s'', ''-m'', ''ensurepip''],
       call_env = store stuck_world (os_environ stuck_world)\<rparr> = None"
    by (simp_all add: exit_status_def has_nul_def path_eval stuck_world_def demo_world_def)
  note t1 = raise_iff_child_fails [where w = demo_world and fp = "''/R''"
      and v = "''3.9''" and pkgname = "''badpkg''" and rf = "''badpkg''" and pp = None
      and nb = None and ob = None]
  note t2 = raise_iff_child_fails [where w = demo_world and fp = "''/Q''"
      and v = "''3.9''"]
  note t3 = raise_iff_child_fails [where w = stuck_world and fp = "''/R''"
      and v = "''3.9''"]
  have "raised (install ''badpkg'' ''/R'' ''3.9'' demo_world)"
    using raises_iff_single [OF t1 [THEN conjunct2, THEN conjunct1] demo_python_exists l1] e1
    by simp
  moreover have "\<not> raised (ensure_pip ''/R'' ''3.9'' demo_world)"
    using raises_iff_single [OF t1 [THEN conjunct1] demo_python_exists l2] e2
    by simp
  moreover have "raised (ensure_pip ''/R'' ''3.9'' stuck_world)"
    using raises_iff_single [OF t3 [THEN conjunct1] stuck_python_exists l3] e3
    by simp
  moreover have "\<not> raised (upgrade_pip_install ''/Q'' ''3.9'' demo_world)
      \<and> launched demo_world (upgrade_pip_install ''/Q'' ''3.9'' demo_world) = []
      \<and> stderr (final (upgrade_pip_install ''/Q'' ''3.9'' demo_world))
          = [''No python at /Q/Versions/3.9/bin/python3.9'']"
    using raises_iff_missing [OF t2 [THEN conjunct2, THEN conjunct2, THEN conjunct1] q]
    by (simp add: path_eval) (simp add: demo_world_def)
  moreover have "length (launched demo_world
        (install_requirements ''badpkg'' ''/R'' ''3.9'' None None None demo_world)) = 1"
    using raises_iff_once [OF t1 [THEN conjunct2, THEN conjunct2, THEN conjunct2]
        demo_python_exists] .
  ultimately show ?thesis by simp
qed




text \<open>
  C9, as stated, fails: the path is a plain join and is not made absolute, so a relative
  framework root gives a relative interpreter path; and a version that begins or ends
  with a slash, or is empty, does not give the shape
  \<^verbatim>\<open><root>/Versions/<version>/bin/python<version>\<close>.
\<close>

theorem python_path_counterexample:
  "\<not> os_path_isabs (python_at ''R'' ''3.9'')
   \<and> python_at ''R'' ''3.9'' = ''R/Versions/3.9/bin/python3.9''
   \<and> python_at ''/R'' ''/3.9'' = ''/3.9/bin/python/3.9''
   \<and> python_at ''/R'' [] = ''/R/Versions/bin/python''
   \<and> python_at ''/R'' ''3.9/'' = ''/R/Versions/3.9/bin/python3.9/''"
  by (simp add: path_eval os_path_isabs_def)

text \<open>
  C9, amended. For every framework root and every non-empty version that neither
  begins nor ends with a slash, the interpreter path is
  \<^verbatim>\<open><root>/Versions/<version>/bin/python<version>\<close> (the slash after the root is
  left out when the root is empty or already ends with one); it is absolute exactly
  when the root is; and each of the four operations resolves this same path from its
  own arguments, as its launched command or its diagnostic shows.
\<close>

theorem python_path_template:
  assumes "v \<noteq> []" and "\<not> startswith v ''/''" and "\<not> endswith v ''/''"
  shows "python_at fp v
           = (if fp = [] \<or> endswith fp ''/'' then fp else fp @ ''/'')
               @ ''Versions/'' @ v @ ''/bin/python'' @ v
       \<and> (os_path_isabs (python_at fp v) \<longleftrightarrow> os_path_isabs fp)
       \<and> resolves_to (python_at fp v) w (ensure_pip fp v w)
       \<and> resolves_to (python_at fp v) w (install pkgname fp v w)
       \<and> resolves_to (python_at fp v) w (upgrade_pip_install fp v w)
       \<and> resolves_to (python_at fp v) w (install_requirements rf fp v pp nb ob w)"
proof (intro conjI)
  show eq: "python_at fp v
           = (if fp = [] \<or> endswith fp ''/'' then fp else fp @ ''/'')
               @ ''Versions/'' @ v @ ''/bin/python'' @ v"
    using assms by (rule python_at_template)
  show "os_path_isabs (python_at fp v) \<longleftrightarrow> os_path_isabs fp"
    unfolding eq by (cases fp) (simp_all add: os_path_isabs_def startswith_def)
  show "resolves_to (python_at fp v) w (ensure_pip fp v w)"
    by (cases "os_path_exists w (python_at fp v)")
       (simp_all only: ensure_pip_present ensure_pip_missing missing_resolves simp_thms,
        simp add: check_call_resolves print_out_def)
  show "resolves_to (python_at fp v) w (install pkgname fp v w)"
    by (cases "os_path_exists w (python_at fp v)")
       (simp_all only: install_present install_missing missing_resolves simp_thms,
        simp add: check_call_resolves print_out_def)
  show "resolves_to (python_at fp v) w (upgrade_pip_install fp v w)"
    by (cases "os_path_exists w (python_at fp v)")
       (simp_all only: upgrade_pip_install_present upgrade_pip_install_missing
          missing_resolves simp_thms,
        simp add: check_call_resolves print_out_def)
  show "resolves_to (python_at fp v) w (install_requirements rf fp v pp nb ob w)"
    by (cases "os_path_exists w (python_at fp v)")
       (simp_all only: install_requirements_present install_requirements_missing
          missing_resolves simp_thms,
        simp add: check_call_resolves print_out_def dict_setitem_def)
qed

theorem python_path_template_witness:
  "python_at ''/R'' ''3.9'' = ''/R/Versions/3.9/bin/python3.9''
   \<and> os_path_isabs (python_at ''/R'' ''3.9'')
   \<and> python_at ''R/'' ''3.9'' = ''R/Versions/3.9/bin/python3.9''
   \<and> \<not> os_path_isabs (python_at ''R/'' ''3.9'')
   \<and> map (\<lambda>c. take 1 (argv c)) (launched demo_world (ensure_pip ''/R'' ''3.9'' demo_world))
       = [[''/R/Versions/3.9/bin/python3.9'']]"
proof -
  have v: "''3.9'' \<noteq> []" "\<not> startswith ''3.9'' ''/''" "\<not> endswith ''3.9'' ''/''"
    by (simp_all add: startswith_def endswith_def)
  note t = python_path_template [OF v, where w = demo_world]
  have "python_at ''/R'' ''3.9'' = ''/R/Versions/3.9/bin/python3.9''"
    using t [where fp = "''/R''", THEN conjunct1] by (simp add: endswith_def)
  moreover have "os_path_isabs (python_at ''/R'' ''3.9'')"
    using t [where fp = "''/R''", THEN conjunct2, THEN conjunct1]
    by (simp add: os_path_isabs_def startswith_def)
  moreover have "python_at ''R/'' ''3.9'' = ''R/Versions/3.9/bin/python3.9''"
    using t [where fp = "''R/''", THEN conjunct1] by (simp add: endswith_def)
  moreover have "\<not> os_path_isabs (python_at ''R/'' ''3.9'')"
    using t [where fp = "''R/''", THEN conjunct2, THEN conjunct1]
    by (simp add: os_path_isabs_def startswith_def)
  moreover have "map (\<lambda>c. take 1 (argv c))
        (launched demo_world (ensure_pip ''/R'' ''3.9'' demo_world))
       = [[''/R/Versions/3.9/bin/python3.9'']]"
    using t [where fp = "''/R''", THEN conjunct2, THEN conjunct2, THEN conjunct1]
      demo_python_exists
    by (simp add: resolves_to_def path_eval)
  ultimately show ?thesis by simp
qed

text \<open>
  C3 does not hold of the code. \<open>pip_env\<close> is another name for the
  \<^verbatim>\<open>os.environ\<close> object, not a copy of it, so setting \<^verbatim>\<open>CPPFLAGS\<close> in it changes
  the environment of the process itself. In a world whose environment has no
  \<^verbatim>\<open>CPPFLAGS\<close>, after \<open>install_requirements\<close> has returned the process
  environment holds it, and a later \<open>ensure_pip\<close> hands it on to its own child.
\<close>

theorem cppflags_leaks_into_os_environ:
  "store demo_world (os_environ demo_world) ''CPPFLAGS'' = None
   \<and> \<not> raised (install_requirements ''requirements.txt'' ''/R'' ''3.9'' None None None
          demo_world)
   \<and> (let w' = final (install_requirements ''requirements.txt'' ''/R'' ''3.9'' None None
                      None demo_world)
      in store w' (os_environ w') ''CPPFLAGS''
           = Some ''-I/R/Versions/3.9/include/python3.9''
         \<and> map (\<lambda>c. call_env c ''CPPFLAGS'') (launched w' (ensure_pip ''/R'' ''3.9'' w'))
           = [Some ''-I/R/Versions/3.9/include/python3.9''])"
proof -
  have abs: "os_path_abspath demo_world (headers_at ''/R'' ''3.9'')
      = ''/R/Versions/3.9/include/python3.9''"
    by (simp add: os_path_abspath_def os_path_isabs_def os_path_normpath_def
          normpath_step_def path_eval Let_def)
  have py: "python_at ''/R'' ''3.9'' = ''/R/Versions/3.9/bin/python3.9''"
    by (simp add: path_eval)
  show ?thesis
    unfolding install_requirements_present [OF demo_python_exists] abs py
    by (simp add: ensure_pip_def check_call_def launched_def dict_setitem_def print_out_def
          os_path_exists_def has_nul_def path_eval demo_world_def platform_flags_def
          binary_flags_def Let_def)
qed

end
